theory Spec2Isabelle
  imports Main
begin

section \<open>The chat view of ohmegle: component Chat of src/pages/index.tsx\<close>

text \<open>
  The component keeps its session in React state hooks, two element refs and two
  component-scope variables, and talks to the outside through a Pusher channel taken from
  a context, through toasts and through the browser's media objects. The model is a record
  of all of that; every handler of the component is a function from state to state.
  Seconds are integers: the model covers whole-second durations in the range where
  JavaScript's number arithmetic is exact.
\<close>

subsection \<open>Data\<close>

text \<open>\<^verbatim>\<open>useState<"text" | "video">("text")\<close>\<close>

datatype chat_mode = Text | Video

text \<open>\<^verbatim>\<open>{ from: string; text: string }\<close>\<close>

record message =
  msg_from :: string
  msg_text :: string

text \<open>\<^verbatim>\<open>toast({ title, status, duration })\<close>\<close>

datatype toast_kind = ToastError | ToastSuccess

record toast =
  toast_title :: string
  toast_status :: toast_kind
  toast_duration :: nat

text \<open>The payload of \<^verbatim>\<open>client-report\<close>, and the events the component triggers on the channel.\<close>

record report =
  screenshot :: string
  reason :: string
  timestamp :: int

datatype out_event =
    ClientNext
  | ClientMessage string
  | ClientReport report
  | ClientOffer string
  | ClientAnswer string
  | ClientIce string

text \<open>
  A media stream is the list of its tracks, a track and a peer connection are named by a
  number; the state records which tracks were stopped and which connections were closed.
  Of a video element the component only writes \<^verbatim>\<open>srcObject\<close>.
\<close>

type_synonym media_stream = "nat list"

record video_element =
  srcObject :: "media_stream option"

text \<open>
  \<^verbatim>\<open>let pc: RTCPeerConnection; let localStream: MediaStream;\<close> stand in the body of the
  function component, so every render of Chat has a pair of its own, both undefined until
  a closure of that render assigns them. A handler therefore takes the number of the render
  whose closure it is, and reads and writes that render's pair.
\<close>

record closure_vars =
  pc :: "nat option"
  localStream :: "media_stream option"

record chat_state =
  mode :: chat_mode
  messages :: "message list"
  status :: string
  input :: string
  time :: int
  isBanned :: bool
  banTimeLeft :: int
  localVideoRef :: "video_element option"
  remoteVideoRef :: "video_element option"
  vars :: "nat \<Rightarrow> closure_vars"
  channel :: bool
  bound :: "(string \<times> nat) list"
  triggered :: "out_event list"
  toasts :: "toast list"
  stoppedTracks :: "nat set"
  closedPcs :: "nat set"

text \<open>
  What the browser answers during one report: whether \<^verbatim>\<open>canvas.getContext("2d")\<close> gives a
  context, what \<^verbatim>\<open>canvas.toDataURL("image/jpeg", 0.8)\<close> returns for the drawn frame, and
  \<^verbatim>\<open>Date.now()\<close>.
\<close>

record browser =
  getContext2d :: bool
  toDataURL :: string
  dateNow :: int

text \<open>
  What the browser answers during one \<^verbatim>\<open>initVideo\<close>: the stream of \<^verbatim>\<open>getUserMedia\<close> (None when
  the promise rejects), the connection \<^verbatim>\<open>new RTCPeerConnection\<close> creates, the offer of
  \<^verbatim>\<open>createOffer\<close> once \<^verbatim>\<open>setLocalDescription\<close> took it (None when either rejects).
\<close>

record webrtc =
  getUserMedia :: "media_stream option"
  newPeerConnection :: nat
  createOffer :: "string option"

subsection \<open>The state a fresh Chat starts in\<close>

definition initial :: chat_state where
  "initial =
    \<lparr> mode = Text, messages = [], status = ''Looking for someone...'', input = [],
      time = 0, isBanned = False, banTimeLeft = 0,
      localVideoRef = None, remoteVideoRef = None,
      vars = (\<lambda>r. \<lparr> pc = None, localStream = None \<rparr>),
      channel = False, bound = [], triggered = [], toasts = [],
      stoppedTracks = {}, closedPcs = {} \<rparr>"

subsection \<open>Channel and toast primitives\<close>

text \<open>\<^verbatim>\<open>channel?.trigger(name, data)\<close>: nothing happens while the context has no channel.\<close>

definition trigger :: "out_event \<Rightarrow> chat_state \<Rightarrow> chat_state" where
  "trigger e s = (if channel s then s\<lparr>triggered := triggered s @ [e]\<rparr> else s)"

text \<open>\<^verbatim>\<open>channel?.bind(name, handler)\<close>, the handler being a closure of render \<open>r\<close>.\<close>

definition bindEvent :: "string \<Rightarrow> nat \<Rightarrow> chat_state \<Rightarrow> chat_state" where
  "bindEvent name r s = (if channel s then s\<lparr>bound := bound s @ [(name, r)]\<rparr> else s)"

definition showToast :: "toast \<Rightarrow> chat_state \<Rightarrow> chat_state" where
  "showToast t s = s\<lparr>toasts := toasts s @ [t]\<rparr>"

subsection \<open>formatTime\<close>

definition digit :: "nat \<Rightarrow> char" where
  "digit n = ''0123456789'' ! n"

text \<open>\<^verbatim>\<open>Number.prototype.toString\<close> on an integer: decimal digits, a minus sign when negative.\<close>

function natToString :: "nat \<Rightarrow> string" where
  "natToString n = (if n < 10 then [digit n] else natToString (n div 10) @ [digit (n mod 10)])"
  by pat_completeness auto
termination
  by (relation "measure id") auto

declare natToString.simps [simp del]

definition toString :: "int \<Rightarrow> string" where
  "toString i = (if i < 0 then CHR ''-'' # natToString (nat (- i)) else natToString (nat i))"

text \<open>\<^verbatim>\<open>padStart(2, "0")\<close>\<close>

definition padStart2 :: "string \<Rightarrow> string" where
  "padStart2 str = replicate (2 - length str) CHR ''0'' @ str"

text \<open>JavaScript's \<^verbatim>\<open>%\<close>: the remainder takes the sign of the dividend.\<close>

definition jsRem :: "int \<Rightarrow> int \<Rightarrow> int" where
  "jsRem a b = sgn a * (\<bar>a\<bar> mod \<bar>b\<bar>)"

text \<open>\<^verbatim>\<open>Math.floor(seconds / 60)\<close> is \<open>div\<close> on integers, which rounds down.\<close>

definition formatTime :: "int \<Rightarrow> string" where
  "formatTime seconds =
    (let m = padStart2 (toString (seconds div 60));
         s = padStart2 (toString (jsRem seconds 60))
     in m @ '':'' @ s)"

subsection \<open>Video\<close>

definition stopVideo :: "nat \<Rightarrow> chat_state \<Rightarrow> chat_state" where
  "stopVideo r s =
    (let s1 = (case localStream (vars s r) of
                 None \<Rightarrow> s
               | Some stream \<Rightarrow> s\<lparr>stoppedTracks := stoppedTracks s \<union> set stream\<rparr>)
     in (case pc (vars s1 r) of
           None \<Rightarrow> s1
         | Some p \<Rightarrow> s1\<lparr>closedPcs := insert p (closedPcs s1)\<rparr>))"

text \<open>
  \<^verbatim>\<open>initVideo\<close> is asynchronous; the model runs it in one piece, up to the first browser call
  that rejects. The handlers of \<^verbatim>\<open>pc.ontrack\<close> and \<^verbatim>\<open>pc.onicecandidate\<close> are \<open>onTrack\<close> and
  \<open>onIceCandidate\<close> below.
\<close>

definition initVideo :: "nat \<Rightarrow> webrtc \<Rightarrow> chat_state \<Rightarrow> chat_state" where
  "initVideo r w s =
    (case (remoteVideoRef s, localVideoRef s) of
       (Some remote, Some local) \<Rightarrow>
         (case getUserMedia w of
            None \<Rightarrow> s
          | Some stream \<Rightarrow>
              let s1 = s\<lparr>vars := (vars s)(r := (vars s r)\<lparr>localStream := Some stream\<rparr>),
                         localVideoRef := Some (local\<lparr>srcObject := Some stream\<rparr>)\<rparr>;
                  s2 = s1\<lparr>vars := (vars s1)(r := (vars s1 r)\<lparr>pc := Some (newPeerConnection w)\<rparr>)\<rparr>;
                  s3 = bindEvent ''client-offer'' r s2;
                  s4 = bindEvent ''client-answer'' r s3;
                  s5 = bindEvent ''client-ice'' r s4
              in (case createOffer w of
                    None \<Rightarrow> s5
                  | Some offer \<Rightarrow> trigger (ClientOffer offer) s5))
     | _ \<Rightarrow> s)"

definition onTrack :: "media_stream \<Rightarrow> chat_state \<Rightarrow> chat_state" where
  "onTrack stream s =
    (case remoteVideoRef s of
       None \<Rightarrow> s
     | Some remote \<Rightarrow> s\<lparr>remoteVideoRef := Some (remote\<lparr>srcObject := Some stream\<rparr>)\<rparr>)"

definition onIceCandidate :: "string option \<Rightarrow> chat_state \<Rightarrow> chat_state" where
  "onIceCandidate candidate s =
    (case candidate of None \<Rightarrow> s | Some c \<Rightarrow> trigger (ClientIce c) s)"

text \<open>
  The handler of an incoming \<^verbatim>\<open>client-offer\<close>. \<open>answer\<close> is what \<^verbatim>\<open>createAnswer\<close> gives once
  \<^verbatim>\<open>setRemoteDescription\<close> and \<^verbatim>\<open>setLocalDescription\<close> went through (None when one of them
  rejects, as they do on a closed connection). The handler is bound with a channel at hand,
  so its \<^verbatim>\<open>channel.trigger\<close> is not guarded.
\<close>

definition onClientOffer :: "nat \<Rightarrow> string option \<Rightarrow> chat_state \<Rightarrow> chat_state" where
  "onClientOffer r answer s =
    (case pc (vars s r) of
       None \<Rightarrow> s
     | Some p \<Rightarrow>
         if p \<in> closedPcs s then s
         else (case answer of
                 None \<Rightarrow> s
               | Some a \<Rightarrow> s\<lparr>triggered := triggered s @ [ClientAnswer a]\<rparr>))"

subsection \<open>Next, send, report\<close>

definition handleNext :: "nat \<Rightarrow> chat_state \<Rightarrow> chat_state" where
  "handleNext r s =
    (let s1 = trigger ClientNext s;
         s2 = stopVideo r s1
     in s2\<lparr>messages := [], status := ''Looking for someone...'', time := 0\<rparr>)"

definition sendMessage :: "chat_state \<Rightarrow> chat_state" where
  "sendMessage s =
    (if input s = [] then s
     else
       let s1 = trigger (ClientMessage (input s)) s
       in s1\<lparr>messages := messages s1 @ [\<lparr>msg_from = ''you'', msg_text = input s\<rparr>],
              input := []\<rparr>)"

definition captureReportFrame :: "browser \<Rightarrow> chat_state \<Rightarrow> string option" where
  "captureReportFrame b s =
    (case remoteVideoRef s of
       None \<Rightarrow> None
     | Some video \<Rightarrow> if \<not> getContext2d b then None else Some (toDataURL b))"

text \<open>\<^verbatim>\<open>!screenshot\<close> holds for null and for the empty string.\<close>

definition reportUser :: "browser \<Rightarrow> chat_state \<Rightarrow> chat_state" where
  "reportUser b s =
    (case captureReportFrame b s of
       None \<Rightarrow>
         showToast \<lparr>toast_title = ''No video to capture'', toast_status = ToastError,
                    toast_duration = 2000\<rparr> s
     | Some shot \<Rightarrow>
         if shot = [] then
           showToast \<lparr>toast_title = ''No video to capture'', toast_status = ToastError,
                      toast_duration = 2000\<rparr> s
         else
           showToast \<lparr>toast_title = ''User reported'', toast_status = ToastSuccess,
                      toast_duration = 2000\<rparr>
             (trigger (ClientReport \<lparr>screenshot = shot, reason = ''Inappropriate behavior'',
                                     timestamp = dateNow b\<rparr>) s))"

text \<open>\<^verbatim>\<open>onChange={(e) => setInput(e.target.value)}\<close>\<close>

definition onChange :: "string \<Rightarrow> chat_state \<Rightarrow> chat_state" where
  "onChange v s = s\<lparr>input := v\<rparr>"

subsection \<open>Ban system\<close>

text \<open>The handler of \<^verbatim>\<open>banned\<close>.\<close>

definition onBanned :: "int \<Rightarrow> chat_state \<Rightarrow> chat_state" where
  "onBanned duration s =
    s\<lparr>isBanned := True, banTimeLeft := duration,
      status := ''You are banned ('' @ formatTime duration @ '')''\<rparr>"

text \<open>The updater the interval passes to \<^verbatim>\<open>setBanTimeLeft\<close>, with the state changes it makes.\<close>

definition banUpdater :: "chat_state \<Rightarrow> chat_state" where
  "banUpdater s =
    (let t = banTimeLeft s
     in if t \<le> 1
        then s\<lparr>isBanned := False, status := ''Looking for someone...'', banTimeLeft := 0\<rparr>
        else s\<lparr>status := ''You are banned ('' @ formatTime (t - 1) @ '')'',
               banTimeLeft := t - 1\<rparr>)"

text \<open>
  One second passing for the ban countdown: the effect sets the interval up only while
  \<^verbatim>\<open>isBanned\<close> holds and clears it when \<^verbatim>\<open>isBanned\<close> changes.
\<close>

definition banTick :: "chat_state \<Rightarrow> chat_state" where
  "banTick s = (if \<not> isBanned s then s else banUpdater s)"

subsection \<open>Session timer\<close>

definition sessionTick :: "chat_state \<Rightarrow> chat_state" where
  "sessionTick s =
    (if status s \<noteq> ''Connected to stranger'' then s else s\<lparr>time := time s + 1\<rparr>)"

subsection \<open>Pusher events\<close>

text \<open>
  The closures read \<^verbatim>\<open>mode\<close> as it was in their render; no setter of the mode is ever called,
  so that is the mode of the state.
\<close>

definition onMatched :: "nat \<Rightarrow> webrtc \<Rightarrow> chat_state \<Rightarrow> chat_state" where
  "onMatched r w s =
    (let s1 = s\<lparr>status := ''Connected to stranger''\<rparr>
     in if mode s1 = Video then initVideo r w s1 else s1)"

definition onClientMessage :: "string \<Rightarrow> chat_state \<Rightarrow> chat_state" where
  "onClientMessage msg s =
    s\<lparr>messages := messages s @ [\<lparr>msg_from = ''stranger'', msg_text = msg\<rparr>]\<rparr>"

definition onClientDisconnect :: "nat \<Rightarrow> chat_state \<Rightarrow> chat_state" where
  "onClientDisconnect r s =
    (let s1 = s\<lparr>status := ''Stranger disconnected''\<rparr>
     in if mode s1 = Video then stopVideo r s1 else s1)"

text \<open>The two effects on \<^verbatim>\<open>[channel]\<close>, run in render \<open>r\<close>, and the cleanup of the second.\<close>

definition banEffect :: "nat \<Rightarrow> chat_state \<Rightarrow> chat_state" where
  "banEffect r s = (if \<not> channel s then s else bindEvent ''banned'' r s)"

definition channelEffect :: "nat \<Rightarrow> chat_state \<Rightarrow> chat_state" where
  "channelEffect r s =
    (if \<not> channel s then s
     else bindEvent ''client-disconnect'' r
            (bindEvent ''client-message'' r (bindEvent ''matched'' r s)))"

definition channelCleanup :: "nat \<Rightarrow> chat_state \<Rightarrow> chat_state" where
  "channelCleanup r s = (if mode s = Video then stopVideo r s else s)"

subsection \<open>Everything that can happen to a chat view\<close>

text \<open>
  User actions, timers, effects and incoming channel events. The context handing over a
  channel is \<open>ChannelReady\<close>. An incoming event reaches a handler only where one is bound;
  the handlers of \<^verbatim>\<open>client-answer\<close> and \<^verbatim>\<open>client-ice\<close> only call into the peer connection
  and leave the state of the component alone.
\<close>

datatype event =
    Next nat
  | Send
  | Report browser
  | Change string
  | ChannelReady
  | BanEffect nat
  | ChannelEffect nat
  | Cleanup nat
  | BanTick
  | SessionTick
  | Banned int
  | Matched nat webrtc
  | Message string
  | Disconnect nat
  | Offer nat "string option"
  | Answer nat
  | Ice nat
  | Track media_stream
  | IceCandidate "string option"

definition isBound :: "string \<Rightarrow> nat \<Rightarrow> chat_state \<Rightarrow> bool" where
  "isBound name r s = ((name, r) \<in> set (bound s))"

fun step :: "event \<Rightarrow> chat_state \<Rightarrow> chat_state" where
  "step (Next r) s = handleNext r s"
| "step Send s = sendMessage s"
| "step (Report b) s = reportUser b s"
| "step (Change v) s = onChange v s"
| "step ChannelReady s = s\<lparr>channel := True\<rparr>"
| "step (BanEffect r) s = banEffect r s"
| "step (ChannelEffect r) s = channelEffect r s"
| "step (Cleanup r) s = channelCleanup r s"
| "step BanTick s = banTick s"
| "step SessionTick s = sessionTick s"
| "step (Banned d) s = (if ''banned'' \<in> fst ` set (bound s) then onBanned d s else s)"
| "step (Matched r w) s = (if isBound ''matched'' r s then onMatched r w s else s)"
| "step (Message msg) s =
     (if ''client-message'' \<in> fst ` set (bound s) then onClientMessage msg s else s)"
| "step (Disconnect r) s =
     (if isBound ''client-disconnect'' r s then onClientDisconnect r s else s)"
| "step (Offer r answer) s =
     (if isBound ''client-offer'' r s then onClientOffer r answer s else s)"
| "step (Answer r) s = s"
| "step (Ice r) s = s"
| "step (Track stream) s = onTrack stream s"
| "step (IceCandidate c) s = onIceCandidate c s"

fun run :: "event list \<Rightarrow> chat_state \<Rightarrow> chat_state" where
  "run [] s = s"
| "run (e # es) s = run es (step e s)"

subsection \<open>Derived notions and sample sessions\<close>


text \<open>
  A chat view in video mode: both video elements are mounted and the channel is there.
  The sample answers of the browser are used where a theorem is run on a concrete session.
\<close>

definition videoSession :: chat_state where
  "videoSession =
    initial\<lparr>mode := Video, localVideoRef := Some \<lparr>srcObject = None\<rparr>,
            remoteVideoRef := Some \<lparr>srcObject = None\<rparr>, channel := True\<rparr>"

definition browser0 :: browser where
  "browser0 =
    \<lparr>getContext2d = True, toDataURL = ''data:image/jpeg;base64,AA'',
     dateNow = 1700000000000\<rparr>"

definition webrtc0 :: webrtc where
  "webrtc0 = \<lparr>getUserMedia = Some [1, 2], newPeerConnection = 7, createOffer = Some ''offer''\<rparr>"

text \<open>
  The part of the state that only the video path writes, as it is in a fresh chat view:
  text mode, no video element mounted, the variables of every render unset, no track
  stopped and no connection closed.
\<close>

definition textOnly :: "chat_state \<Rightarrow> bool" where
  "textOnly s =
    (mode s = Text \<and> localVideoRef s = None \<and> remoteVideoRef s = None
     \<and> vars s = vars initial \<and> stoppedTracks s = {} \<and> closedPcs s = {})"

section \<open>Properties\<close>

subsection \<open>What the primitives leave alone\<close>

lemma trigger_fields:
  "mode (trigger e s) = mode s" "messages (trigger e s) = messages s"
  "status (trigger e s) = status s" "input (trigger e s) = input s"
  "time (trigger e s) = time s" "isBanned (trigger e s) = isBanned s"
  "banTimeLeft (trigger e s) = banTimeLeft s"
  "localVideoRef (trigger e s) = localVideoRef s"
  "remoteVideoRef (trigger e s) = remoteVideoRef s"
  "vars (trigger e s) = vars s" "channel (trigger e s) = channel s"
  "bound (trigger e s) = bound s" "toasts (trigger e s) = toasts s"
  "stoppedTracks (trigger e s) = stoppedTracks s" "closedPcs (trigger e s) = closedPcs s"
  by (simp_all add: trigger_def)

lemma bindEvent_fields:
  "mode (bindEvent n r s) = mode s" "triggered (bindEvent n r s) = triggered s"
  "channel (bindEvent n r s) = channel s"
  by (simp_all add: bindEvent_def)

lemma stopVideo_fields:
  "mode (stopVideo r s) = mode s" "messages (stopVideo r s) = messages s"
  "status (stopVideo r s) = status s" "input (stopVideo r s) = input s"
  "time (stopVideo r s) = time s" "isBanned (stopVideo r s) = isBanned s"
  "banTimeLeft (stopVideo r s) = banTimeLeft s"
  "localVideoRef (stopVideo r s) = localVideoRef s"
  "remoteVideoRef (stopVideo r s) = remoteVideoRef s"
  "vars (stopVideo r s) = vars s" "channel (stopVideo r s) = channel s"
  "bound (stopVideo r s) = bound s" "triggered (stopVideo r s) = triggered s"
  "toasts (stopVideo r s) = toasts s"
  by (simp_all add: stopVideo_def Let_def split: option.splits)

text \<open>
  \<^verbatim>\<open>stopVideo\<close> stops every track of the stream in \<^verbatim>\<open>localStream\<close> and closes the connection
  in \<^verbatim>\<open>pc\<close>, each when the variable of the running closure is set.
\<close>

lemma stopVideo_media:
  "closedPcs (stopVideo r s) = closedPcs s \<union> set_option (pc (vars s r))"
  "stoppedTracks (stopVideo r s) =
     stoppedTracks s \<union> (case localStream (vars s r) of None \<Rightarrow> {} | Some stream \<Rightarrow> set stream)"
  by (simp_all add: stopVideo_def Let_def split: option.splits)

lemma initVideo_mode: "mode (initVideo r w s) = mode s"
  by (simp add: initVideo_def Let_def bindEvent_fields trigger_fields
      split: option.splits prod.splits)

lemma step_mode: "mode (step e s) = mode s"
  by (cases e)
    (simp_all add: handleNext_def sendMessage_def reportUser_def onChange_def banEffect_def
      channelEffect_def channelCleanup_def banTick_def banUpdater_def sessionTick_def
      onBanned_def onMatched_def onClientMessage_def onClientDisconnect_def onClientOffer_def
      onTrack_def onIceCandidate_def showToast_def Let_def
      stopVideo_fields trigger_fields bindEvent_fields initVideo_mode
      split: option.splits)

subsection \<open>What a chat view reaches\<close>





lemma textOnly_bindEvent: "textOnly s \<Longrightarrow> textOnly (bindEvent n r s)"
  by (simp add: textOnly_def bindEvent_def)



subsection \<open>The layout of formatTime\<close>


lemma natToString_digit: "n < 10 \<Longrightarrow> natToString n = [digit n]"
  by (simp add: natToString.simps)

lemma natToString_two:
  "10 \<le> n \<Longrightarrow> n < 100 \<Longrightarrow> natToString n = [digit (n div 10), digit (n mod 10)]"
  by (subst natToString.simps) (simp add: natToString_digit)

lemma padStart2_natToString:
  "n < 100 \<Longrightarrow> padStart2 (natToString n) = [digit (n div 10), digit (n mod 10)]"
  by (cases "n < 10") (simp_all add: padStart2_def natToString_digit natToString_two digit_def)

lemma formatTime_mmss:
  assumes "0 \<le> d" "d < 6000"
  shows "formatTime d =
    [digit (nat d div 600), digit (nat d div 60 mod 10), CHR '':'',
     digit (nat d mod 60 div 10), digit (nat d mod 10)]"
proof -
  have m: "nat (d div 60) < 100" "0 \<le> d div 60" using assms by linarith+
  have r: "jsRem d 60 = d mod 60" using assms by (auto simp: jsRem_def sgn_if)
  have s: "nat d mod 60 < 100" by simp
  have a: "nat (d div 60) = nat d div 60" using assms by (simp add: nat_div_distrib)
  have b: "nat (d mod 60) = nat d mod 60" using assms by (simp add: nat_mod_distrib)
  have c: "nat d mod 60 mod 10 = nat d mod 10" by (simp add: mod_mod_cancel)
  have e: "nat d div 60 div 10 = nat d div 600" by (simp add: div_mult2_eq[symmetric])
  have ts: "toString (d mod 60) = natToString (nat d mod 60)"
    unfolding toString_def b[symmetric] by (simp add: not_less[symmetric] del: not_less)
  have "padStart2 (toString (d div 60)) = [digit (nat d div 600), digit (nat d div 60 mod 10)]"
    using m padStart2_natToString[of "nat (d div 60)"] by (simp add: toString_def a e)
  moreover have "padStart2 (toString (jsRem d 60)) =
      [digit (nat d mod 60 div 10), digit (nat d mod 10)]"
    using s padStart2_natToString[of "nat d mod 60"] by (simp add: r ts c)
  ultimately show ?thesis by (simp add: formatTime_def)
qed

lemma natToString_nonempty: "natToString n \<noteq> []"
  by (subst natToString.simps) simp

lemma natToString_long: "10 \<le> n \<Longrightarrow> 2 \<le> length (natToString n)"
proof -
  assume "10 \<le> n"
  then have "natToString n = natToString (n div 10) @ [digit (n mod 10)]"
    by (subst natToString.simps) simp
  moreover have "1 \<le> length (natToString (n div 10))"
    using natToString_nonempty [of "n div 10"] by (cases "natToString (n div 10)") simp_all
  ultimately show ?thesis by simp
qed

lemma natToString_longer: "100 \<le> n \<Longrightarrow> 3 \<le> length (natToString n)"
proof -
  assume h: "100 \<le> n"
  then have "natToString n = natToString (n div 10) @ [digit (n mod 10)]"
    by (subst natToString.simps) simp
  moreover have "2 \<le> length (natToString (n div 10))"
    using h by (intro natToString_long) linarith
  ultimately show ?thesis by simp
qed

lemma digit_decimal: "k < 10 \<Longrightarrow> digit k \<in> set ''0123456789''"
  unfolding digit_def by (rule nth_mem) simp

lemma natToString_decimal: "set (natToString n) \<subseteq> set ''0123456789''"
proof (induction n rule: natToString.induct)
  case (1 n)
  show ?case
  proof (cases "n < 10")
    case True
    then show ?thesis using digit_decimal [of n] by (simp add: natToString_digit)
  next
    case False
    then have "natToString n = natToString (n div 10) @ [digit (n mod 10)]"
      by (subst natToString.simps) simp
    moreover have "digit (n mod 10) \<in> set ''0123456789''" by (rule digit_decimal) simp
    ultimately show ?thesis using 1 False by auto
  qed
qed

lemma padStart2_minutes:
  "padStart2 (natToString n) = (if n < 10 then [CHR ''0'', digit n] else natToString n)"
  using natToString_long [of n] by (auto simp: padStart2_def natToString_digit)

lemma formatTime_layout:
  assumes "0 \<le> d"
  shows "formatTime d =
    padStart2 (natToString (nat d div 60)) @ '':''
      @ [digit (nat d mod 60 div 10), digit (nat d mod 10)]"
proof -
  have m: "0 \<le> d div 60" using assms by simp
  have r: "jsRem d 60 = d mod 60" using assms by (auto simp: jsRem_def sgn_if)
  have s: "nat d mod 60 < 100" by simp
  have a: "nat (d div 60) = nat d div 60" using assms by (simp add: nat_div_distrib)
  have b: "nat (d mod 60) = nat d mod 60" using assms by (simp add: nat_mod_distrib)
  have c: "nat d mod 60 mod 10 = nat d mod 10" by (simp add: mod_mod_cancel)
  have ts: "toString (d mod 60) = natToString (nat d mod 60)"
    unfolding toString_def b[symmetric] by (simp add: not_less[symmetric] del: not_less)
  have tm: "toString (d div 60) = natToString (nat d div 60)"
    using m by (simp add: toString_def a)
  have "padStart2 (toString (jsRem d 60)) =
      [digit (nat d mod 60 div 10), digit (nat d mod 10)]"
    using s padStart2_natToString[of "nat d mod 60"] by (simp add: r ts c)
  then show ?thesis by (simp add: formatTime_def tm)
qed

lemma formatTime_samples:
  "formatTime 1 = ''00:01''" "formatTime 125 = ''02:05''" "formatTime 6000 = ''100:00''"
  by code_simp+

subsection \<open>Next\<close>

text \<open>
  Claim C1. Pressing "next" empties the message list and sets the status text to
  "Looking for someone...", whatever the session was before and whichever render the
  handler belongs to.
\<close>

theorem handleNext_clears_messages_and_status:
  "messages (handleNext r s) = [] \<and> status (handleNext r s) = ''Looking for someone...''"
  by (simp add: handleNext_def Let_def)

text \<open>The same on a session that holds a message of the stranger and is banned.\<close>

theorem handleNext_clears_witness:
  "messages (onClientMessage ''hello'' (onBanned 30 initial)) \<noteq> []
   \<and> messages (handleNext 0 (onClientMessage ''hello'' (onBanned 30 initial))) = []
   \<and> status (handleNext 0 (onClientMessage ''hello'' (onBanned 30 initial)))
       = ''Looking for someone...''"
  using handleNext_clears_messages_and_status [of 0 "onClientMessage ''hello'' (onBanned 30 initial)"]
  by (simp add: onClientMessage_def)

text \<open>
  Claim C10. Pressing "next" leaves the ban alone: the flag and the remaining seconds keep
  their values. The handler changes the messages, the status text, the session timer, the
  stopped tracks and closed connections, and the list of triggered events (by
  \<^verbatim>\<open>client-next\<close>, when there is a channel); every other part of the state is as before.
\<close>

theorem handleNext_keeps_ban:
  "isBanned (handleNext r s) = isBanned s \<and> banTimeLeft (handleNext r s) = banTimeLeft s
   \<and> handleNext r s =
       s\<lparr>messages := [], status := ''Looking for someone...'', time := 0,
         triggered := (if channel s then triggered s @ [ClientNext] else triggered s),
         stoppedTracks :=
           stoppedTracks s
           \<union> (case localStream (vars s r) of None \<Rightarrow> {} | Some stream \<Rightarrow> set stream),
         closedPcs := closedPcs s \<union> set_option (pc (vars s r))\<rparr>"
  by (simp add: handleNext_def stopVideo_def trigger_def Let_def split: option.splits)

text \<open>A user banned for thirty seconds presses "next" and is still banned for thirty.\<close>

theorem handleNext_keeps_ban_witness:
  "isBanned (handleNext 0 (onBanned 30 initial))
   \<and> banTimeLeft (handleNext 0 (onBanned 30 initial)) = 30"
  using handleNext_keeps_ban [of 0 "onBanned 30 initial"]
  by (simp add: onBanned_def)

subsection \<open>Text messages\<close>

text \<open>
  Claim C3. Sending with an empty input field does nothing: the state after is the state
  before, so no event was triggered, and the messages and the input field are unchanged.
\<close>

theorem sendMessage_empty_noop:
  "input s = [] \<Longrightarrow>
     sendMessage s = s \<and> triggered (sendMessage s) = triggered s
     \<and> messages (sendMessage s) = messages s \<and> input (sendMessage s) = input s"
  by (simp add: sendMessage_def)

theorem sendMessage_empty_witness:
  "input (step ChannelReady initial) = []
   \<and> sendMessage (step ChannelReady initial) = step ChannelReady initial
   \<and> triggered (sendMessage (step ChannelReady initial)) = []"
proof -
  have h: "input (step ChannelReady initial) = []" by (simp add: initial_def)
  from sendMessage_empty_noop [OF h] h show ?thesis by (simp add: initial_def)
qed

text \<open>
  Claim C9, amended. Sending a non-empty input appends exactly one message, from "you" and
  with the input as its text, and empties the input field. One \<^verbatim>\<open>client-message\<close> event with
  that text is triggered when the context has a channel; without a channel none is.
\<close>

theorem sendMessage_appends_and_emits:
  "input s \<noteq> [] \<Longrightarrow>
     messages (sendMessage s) = messages s @ [\<lparr>msg_from = ''you'', msg_text = input s\<rparr>]
     \<and> input (sendMessage s) = []
     \<and> triggered (sendMessage s) =
         (if channel s then triggered s @ [ClientMessage (input s)] else triggered s)"
  by (simp add: sendMessage_def trigger_def Let_def)

theorem sendMessage_witness:
  "input (onChange ''hi'' (step ChannelReady initial)) \<noteq> []
   \<and> messages (sendMessage (onChange ''hi'' (step ChannelReady initial)))
       = [\<lparr>msg_from = ''you'', msg_text = ''hi''\<rparr>]
   \<and> input (sendMessage (onChange ''hi'' (step ChannelReady initial))) = []
   \<and> triggered (sendMessage (onChange ''hi'' (step ChannelReady initial)))
       = [ClientMessage ''hi'']"
proof -
  have h: "input (onChange ''hi'' (step ChannelReady initial)) \<noteq> []"
    by (simp add: onChange_def)
  from sendMessage_appends_and_emits [OF h] h show ?thesis
    by (simp add: onChange_def initial_def)
qed

text \<open>
  The claim as it was stated fails before the channel is there: the user types "hi" into a
  fresh chat view and sends; the message is shown, and no event leaves.
\<close>

theorem sendMessage_no_channel_counterexample:
  "input (onChange ''hi'' initial) \<noteq> []
   \<and> messages (sendMessage (onChange ''hi'' initial)) = [\<lparr>msg_from = ''you'', msg_text = ''hi''\<rparr>]
   \<and> triggered (sendMessage (onChange ''hi'' initial)) = []"
  by (simp add: sendMessage_def onChange_def initial_def trigger_def)


subsection \<open>Report\<close>



text \<open>
  The one case the theorem leaves out is a state with a remote video element and no
  channel, which no chat view reaches: there a report that captures a frame shows the
  success toast and triggers nothing, by \<^verbatim>\<open>channel?.trigger\<close>.
\<close>

lemma reportUser_without_channel:
  "captureReportFrame browser0 (videoSession\<lparr>channel := False\<rparr>)
     = Some ''data:image/jpeg;base64,AA''
   \<and> toasts (reportUser browser0 (videoSession\<lparr>channel := False\<rparr>)) =
       [\<lparr>toast_title = ''User reported'', toast_status = ToastSuccess, toast_duration = 2000\<rparr>]
   \<and> triggered (reportUser browser0 (videoSession\<lparr>channel := False\<rparr>)) = []"
  by (simp add: captureReportFrame_def reportUser_def videoSession_def initial_def browser0_def
      showToast_def trigger_def)

text \<open>A \<^verbatim>\<open>client-report\<close> that a handler adds to the triggered events comes from \<open>reportUser\<close>.\<close>

lemma step_reports:
  "ClientReport p \<in> set (triggered (step e s)) \<Longrightarrow>
     ClientReport p \<in> set (triggered s)
     \<or> (\<exists>b. e = Report b \<and> captureReportFrame b s = Some (screenshot p)
            \<and> screenshot p \<noteq> []
            \<and> p = \<lparr>screenshot = toDataURL b, reason = ''Inappropriate behavior'',
                   timestamp = dateNow b\<rparr>)"
  by (cases e)
    (auto simp: handleNext_def sendMessage_def reportUser_def onChange_def banEffect_def
      channelEffect_def channelCleanup_def banTick_def banUpdater_def sessionTick_def
      onBanned_def onMatched_def onClientMessage_def onClientDisconnect_def onClientOffer_def
      onTrack_def onIceCandidate_def showToast_def Let_def captureReportFrame_def
      stopVideo_def trigger_def bindEvent_def initVideo_def
      split: option.splits if_splits)

text \<open>
  Claim C5. Every \<^verbatim>\<open>client-report\<close> event that any sequence of actions, timers and incoming
  events puts on the channel was put there by a report action, and its payload is the
  record of exactly three fields: the screenshot that \<^verbatim>\<open>captureReportFrame\<close> returned at that
  moment (the non-empty result of \<^verbatim>\<open>toDataURL\<close>), the reason "Inappropriate behavior", and
  the timestamp \<^verbatim>\<open>Date.now()\<close> gave.
\<close>

theorem client_report_payload:
  "ClientReport p \<in> set (triggered (run es s)) \<Longrightarrow>
     ClientReport p \<in> set (triggered s)
     \<or> (\<exists>b es1 es2. es = es1 @ Report b # es2
            \<and> captureReportFrame b (run es1 s) = Some (screenshot p)
            \<and> screenshot p \<noteq> []
            \<and> p = \<lparr>screenshot = toDataURL b, reason = ''Inappropriate behavior'',
                   timestamp = dateNow b\<rparr>)"
proof (induction es arbitrary: s)
  case Nil
  then show ?case by simp
next
  case (Cons e es)
  from Cons.prems have "ClientReport p \<in> set (triggered (run es (step e s)))" by simp
  from Cons.IH [OF this] show ?case
  proof
    assume "ClientReport p \<in> set (triggered (step e s))"
    from step_reports [OF this] show ?thesis
    proof
      assume "ClientReport p \<in> set (triggered s)"
      then show ?thesis by simp
    next
      assume "\<exists>b. e = Report b \<and> captureReportFrame b s = Some (screenshot p)
            \<and> screenshot p \<noteq> []
            \<and> p = \<lparr>screenshot = toDataURL b, reason = ''Inappropriate behavior'',
                   timestamp = dateNow b\<rparr>"
      then obtain b where b: "e = Report b" "captureReportFrame b s = Some (screenshot p)"
        "screenshot p \<noteq> []"
        "p = \<lparr>screenshot = toDataURL b, reason = ''Inappropriate behavior'',
              timestamp = dateNow b\<rparr>"
        by blast
      have "e # es = [] @ Report b # es \<and> captureReportFrame b (run [] s) = Some (screenshot p)"
        using b by simp
      with b(3,4) show ?thesis by blast
    qed
  next
    assume "\<exists>b es1 es2. es = es1 @ Report b # es2
            \<and> captureReportFrame b (run es1 (step e s)) = Some (screenshot p)
            \<and> screenshot p \<noteq> []
            \<and> p = \<lparr>screenshot = toDataURL b, reason = ''Inappropriate behavior'',
                   timestamp = dateNow b\<rparr>"
    then obtain b es1 es2 where b: "es = es1 @ Report b # es2"
        "captureReportFrame b (run es1 (step e s)) = Some (screenshot p)"
        "screenshot p \<noteq> []"
        "p = \<lparr>screenshot = toDataURL b, reason = ''Inappropriate behavior'',
              timestamp = dateNow b\<rparr>"
      by blast
    have "e # es = (e # es1) @ Report b # es2
        \<and> captureReportFrame b (run (e # es1) s) = Some (screenshot p)"
      using b by simp
    with b(3,4) show ?thesis by blast
  qed
qed

text \<open>The user of a video session types a letter and then reports.\<close>

theorem client_report_payload_witness:
  "ClientReport \<lparr>screenshot = ''data:image/jpeg;base64,AA'', reason = ''Inappropriate behavior'',
       timestamp = 1700000000000\<rparr>
     \<in> set (triggered (run [Change ''x'', Report browser0] videoSession))
   \<and> triggered videoSession = []
   \<and> (\<exists>b es1 es2. [Change ''x'', Report browser0] = es1 @ Report b # es2
          \<and> captureReportFrame b (run es1 videoSession) = Some ''data:image/jpeg;base64,AA''
          \<and> toDataURL b = ''data:image/jpeg;base64,AA'' \<and> dateNow b = 1700000000000)"
proof -
  let ?p = "\<lparr>screenshot = ''data:image/jpeg;base64,AA'', reason = ''Inappropriate behavior'',
       timestamp = 1700000000000\<rparr>"
  have h: "ClientReport ?p \<in> set (triggered (run [Change ''x'', Report browser0] videoSession))"
    by (simp add: onChange_def reportUser_def captureReportFrame_def videoSession_def
        initial_def browser0_def showToast_def trigger_def)
  have e: "triggered videoSession = []" by (simp add: videoSession_def initial_def)
  from client_report_payload [OF h] e
  obtain b es1 es2 where b: "[Change ''x'', Report browser0] = es1 @ Report b # es2"
      "captureReportFrame b (run es1 videoSession) = Some (screenshot ?p)"
      "?p = \<lparr>screenshot = toDataURL b, reason = ''Inappropriate behavior'',
              timestamp = dateNow b\<rparr>"
    by auto
  from b(3) have "toDataURL b = ''data:image/jpeg;base64,AA''" "dateNow b = 1700000000000"
    by simp_all
  with b(1,2) have "\<exists>b es1 es2. [Change ''x'', Report browser0] = es1 @ Report b # es2
          \<and> captureReportFrame b (run es1 videoSession) = Some ''data:image/jpeg;base64,AA''
          \<and> toDataURL b = ''data:image/jpeg;base64,AA'' \<and> dateNow b = 1700000000000"
    by (intro exI [of _ b] exI [of _ es1] exI [of _ es2]) simp
  with h e show ?thesis by blast
qed


subsection \<open>Ban system\<close>

text \<open>
  Claim C6, amended. The handler of \<^verbatim>\<open>banned\<close> with duration \<open>d\<close> sets the ban flag, sets the
  remaining seconds to \<open>d\<close>, and sets the status text to "You are banned (" followed by
  \<^verbatim>\<open>formatTime(d)\<close> and ")". For every \<open>d\<close> from 0 on, \<^verbatim>\<open>formatTime(d)\<close> is the minutes, a
  colon and the seconds: the seconds as two digits, the minutes as decimal digits padded
  with a zero to at least two. That is mm:ss below 6000 seconds; from 6000 seconds on the
  minutes take three digits or more.
\<close>

theorem onBanned_sets_ban:
  "isBanned (onBanned d s) \<and> banTimeLeft (onBanned d s) = d
   \<and> status (onBanned d s) = ''You are banned ('' @ formatTime d @ '')''
   \<and> (0 \<le> d \<longrightarrow>
        formatTime d =
          padStart2 (natToString (nat d div 60)) @ '':''
            @ [digit (nat d mod 60 div 10), digit (nat d mod 10)]
        \<and> padStart2 (natToString (nat d div 60)) =
            (if d < 600 then [CHR ''0'', digit (nat d div 60)] else natToString (nat d div 60))
        \<and> 2 \<le> length (padStart2 (natToString (nat d div 60)))
        \<and> set (padStart2 (natToString (nat d div 60))) \<subseteq> set ''0123456789'')
   \<and> (0 \<le> d \<and> d < 6000 \<longrightarrow>
        formatTime d =
          [digit (nat d div 600), digit (nat d div 60 mod 10), CHR '':'',
           digit (nat d mod 60 div 10), digit (nat d mod 10)])
   \<and> (6000 \<le> d \<longrightarrow> 6 \<le> length (formatTime d))"
proof -
  let ?m = "padStart2 (natToString (nat d div 60))"
  have e: "isBanned (onBanned d s) \<and> banTimeLeft (onBanned d s) = d
      \<and> status (onBanned d s) = ''You are banned ('' @ formatTime d @ '')''"
    by (simp add: onBanned_def)
  have a: "0 \<le> d \<longrightarrow>
        formatTime d = ?m @ '':'' @ [digit (nat d mod 60 div 10), digit (nat d mod 10)]
        \<and> ?m = (if d < 600 then [CHR ''0'', digit (nat d div 60)] else natToString (nat d div 60))
        \<and> 2 \<le> length ?m
        \<and> set ?m \<subseteq> set ''0123456789''"
  proof (intro impI conjI)
    assume h: "0 \<le> d"
    show "formatTime d = ?m @ '':'' @ [digit (nat d mod 60 div 10), digit (nat d mod 10)]"
      using h by (rule formatTime_layout)
    have "(nat d div 60 < 10) = (d < 600)" using h by linarith
    then show "?m = (if d < 600 then [CHR ''0'', digit (nat d div 60)]
        else natToString (nat d div 60))"
      by (simp add: padStart2_minutes)
    show "2 \<le> length ?m"
      using natToString_long [of "nat d div 60"] by (auto simp: padStart2_minutes)
    show "set ?m \<subseteq> set ''0123456789''"
      using natToString_decimal [of "nat d div 60"] by (auto simp: padStart2_def)
  qed
  have b: "0 \<le> d \<and> d < 6000 \<longrightarrow>
        formatTime d =
          [digit (nat d div 600), digit (nat d div 60 mod 10), CHR '':'',
           digit (nat d mod 60 div 10), digit (nat d mod 10)]"
    using formatTime_mmss [of d] by blast
  have c: "6000 \<le> d \<longrightarrow> 6 \<le> length (formatTime d)"
  proof
    assume h: "6000 \<le> d"
    then have "100 \<le> nat d div 60" by linarith
    from natToString_longer [OF this] have "3 \<le> length ?m"
      by (simp add: padStart2_def)
    then show "6 \<le> length (formatTime d)" using h by (simp add: formatTime_layout)
  qed
  from e a b c show ?thesis by blast
qed

text \<open>A ban of two minutes and five seconds, and one of two hours.\<close>

theorem onBanned_witness:
  "isBanned (onBanned 125 initial) \<and> banTimeLeft (onBanned 125 initial) = 125
   \<and> status (onBanned 125 initial) = ''You are banned (02:05)''
   \<and> formatTime 125 = [digit 0, digit 2, CHR '':'', digit 0, digit 5]
   \<and> 6 \<le> length (formatTime 7200)"
proof -
  have h: "0 \<le> (125::int) \<and> (125::int) < 6000" "(6000::int) \<le> 7200" by simp_all
  from onBanned_sets_ban [of 125 initial]
  have a: "isBanned (onBanned 125 initial)" "banTimeLeft (onBanned 125 initial) = 125"
    "status (onBanned 125 initial) = ''You are banned ('' @ formatTime 125 @ '')''"
    by blast+
  from onBanned_sets_ban [of 125 initial] h(1)
  have "formatTime 125 =
      [digit (nat 125 div 600), digit (nat 125 div 60 mod 10), CHR '':'',
       digit (nat 125 mod 60 div 10), digit (nat 125 mod 10)]"
    by blast
  then have b: "formatTime 125 = [digit 0, digit 2, CHR '':'', digit 0, digit 5]" by simp
  from onBanned_sets_ban [of 7200 initial] h(2)
  have c: "6 \<le> length (formatTime 7200)" by blast
  from a(3) have d: "status (onBanned 125 initial) = ''You are banned (02:05)''"
    by (simp add: formatTime_samples)
  from a(1,2) b c d show ?thesis by blast
qed

text \<open>
  The claim as it was stated fails for a ban of a hundred minutes: the chat view has its
  channel and the handler bound, the event carries 6000 seconds, and the status shows three
  digits of minutes.
\<close>

theorem onBanned_hundred_minutes_counterexample:
  "status (run [ChannelReady, BanEffect 0, Banned 6000] initial) = ''You are banned (100:00)''
   \<and> formatTime 6000 = ''100:00'' \<and> length (formatTime 6000) = 6"
  by (simp add: banEffect_def bindEvent_def onBanned_def initial_def formatTime_samples)

text \<open>
  Claim C2, amended. While the ban is active and at least one second remains, a tick of the
  countdown takes exactly one second off. A tick that finds one second or less ends the
  ban: the flag is cleared, the remaining seconds are 0 and the status text is "Looking for
  someone..."; that is the only way the remaining seconds get to 0. A tick that finds more
  than one second keeps the ban and shows the new remaining time.
\<close>

theorem banTick_decrements_and_clears:
  assumes "isBanned s"
  shows "(1 \<le> banTimeLeft s \<longrightarrow> banTimeLeft (banTick s) = banTimeLeft s - 1)
    \<and> (banTimeLeft (banTick s) = 0) = (banTimeLeft s \<le> 1)
    \<and> (banTimeLeft s \<le> 1 \<longrightarrow>
          \<not> isBanned (banTick s) \<and> banTimeLeft (banTick s) = 0
          \<and> status (banTick s) = ''Looking for someone...'')
    \<and> (1 < banTimeLeft s \<longrightarrow>
          isBanned (banTick s)
          \<and> status (banTick s)
              = ''You are banned ('' @ formatTime (banTimeLeft s - 1) @ '')'')"
  using assms by (auto simp: banTick_def banUpdater_def Let_def)

text \<open>A tick with two seconds left, and the tick with one second left.\<close>

theorem banTick_decrements_witness:
  "isBanned (onBanned 2 initial)
   \<and> banTimeLeft (banTick (onBanned 2 initial)) = 1
   \<and> isBanned (banTick (onBanned 2 initial))
   \<and> status (banTick (onBanned 2 initial)) = ''You are banned (00:01)''
   \<and> isBanned (onBanned 1 initial)
   \<and> banTimeLeft (banTick (onBanned 1 initial)) = 0
   \<and> \<not> isBanned (banTick (onBanned 1 initial))
   \<and> status (banTick (onBanned 1 initial)) = ''Looking for someone...''"
proof -
  have h2: "isBanned (onBanned 2 initial)" and h1: "isBanned (onBanned 1 initial)"
    by (simp_all add: onBanned_def)
  have b2: "banTimeLeft (onBanned 2 initial) = 2"
    and b1: "banTimeLeft (onBanned 1 initial) = 1"
    by (simp_all add: onBanned_def)
  show ?thesis
    using banTick_decrements_and_clears [OF h2] banTick_decrements_and_clears [OF h1] h1 h2
    by (simp add: b1 b2 formatTime_samples)
qed

text \<open>
  The claim as it was stated fails for a ban of zero seconds: the ban is active with 0
  seconds remaining, and the tick leaves 0 instead of taking one off.
\<close>

theorem banTick_zero_counterexample:
  "isBanned (onBanned 0 initial)
   \<and> banTimeLeft (onBanned 0 initial) = 0
   \<and> banTimeLeft (banTick (onBanned 0 initial)) = 0
   \<and> banTimeLeft (banTick (onBanned 0 initial)) \<noteq> banTimeLeft (onBanned 0 initial) - 1"
  by (simp add: onBanned_def banTick_def banUpdater_def)

text \<open>
  The whole countdown of a ban of \<open>d\<close> seconds, \<open>d\<close> at least one: after \<open>k\<close> ticks
  \<open>d - k\<close> seconds remain, and the ban is active until the tick number \<open>d\<close>.
\<close>

lemma banTick_countdown:
  "1 \<le> d \<Longrightarrow> k \<le> nat d \<Longrightarrow>
     banTimeLeft ((banTick ^^ k) (onBanned d s)) = d - int k
     \<and> isBanned ((banTick ^^ k) (onBanned d s)) = (int k < d)"
proof (induction k)
  case 0
  then show ?case by (simp add: onBanned_def)
next
  case (Suc k)
  then show ?case by (auto simp: banTick_def banUpdater_def Let_def)
qed

subsection \<open>Stopping the video\<close>


text \<open>
  A video session is matched in render 0: \<^verbatim>\<open>initVideo\<close> gets the tracks 1 and 2 and creates the
  connection 7, in the variables of render 0.
\<close>

lemma matched_session:
  "pc (vars (onMatched 0 webrtc0 videoSession) 0) = Some 7"
  "localStream (vars (onMatched 0 webrtc0 videoSession) 0) = Some [1, 2]"
  "mode (onMatched 0 webrtc0 videoSession) = Video"
  "closedPcs (onMatched 0 webrtc0 videoSession) = {}"
  "stoppedTracks (onMatched 0 webrtc0 videoSession) = {}"
  "pc (vars (onMatched 0 webrtc0 videoSession) 1) = None"
  "localStream (vars (onMatched 0 webrtc0 videoSession) 1) = None"
  "bound (onMatched 0 webrtc0 videoSession) =
     [(''client-offer'', 0), (''client-answer'', 0), (''client-ice'', 0)]"
  by (simp_all add: onMatched_def initVideo_def videoSession_def initial_def webrtc0_def Let_def
      bindEvent_def trigger_def)


text \<open>
  The variables belong to one render. In the video session above, which no chat view
  reaches, the "next" handler of a later render finds its own \<^verbatim>\<open>pc\<close> and \<^verbatim>\<open>localStream\<close>
  unset and leaves the connection and the tracks of render 0 as they are.
\<close>

lemma handleNext_of_later_render:
  "closedPcs (handleNext 1 (onMatched 0 webrtc0 videoSession)) = {}
   \<and> stoppedTracks (handleNext 1 (onMatched 0 webrtc0 videoSession)) = {}"
  using matched_session(6,7)
  by (simp add: handleNext_def Let_def stopVideo_media trigger_fields matched_session(4,5))

subsection \<open>Mode\<close>

text \<open>
  Claim C8. No user action, timer, effect or channel handler changes the mode: it is the
  same after every step and after every sequence of steps, and a chat view, which starts in
  text mode, stays in text mode.
\<close>

theorem mode_fixed:
  "mode (step e s) = mode s \<and> mode (run es s) = mode s \<and> mode (run es initial) = Text"
proof -
  have r: "mode (run es s') = mode s'" for s'
    by (induction es arbitrary: s') (simp_all add: step_mode)
  show ?thesis by (simp add: step_mode r initial_def)
qed

text \<open>A session that gets its channel, is matched, chats, is banned and moves on.\<close>

theorem mode_fixed_witness:
  "mode (run [ChannelReady, ChannelEffect 0, BanEffect 0, Matched 0 webrtc0, Change ''hi'',
              Send, Message ''yo'', Banned 30, BanTick, Disconnect 0, Next 1] initial) = Text
   \<and> mode (run [ChannelReady, ChannelEffect 0, Matched 0 webrtc0, Next 1] videoSession) = Video"
  using mode_fixed [of ChannelReady initial
      "[ChannelReady, ChannelEffect 0, BanEffect 0, Matched 0 webrtc0, Change ''hi'',
        Send, Message ''yo'', Banned 30, BanTick, Disconnect 0, Next 1]"]
    mode_fixed [of ChannelReady videoSession
      "[ChannelReady, ChannelEffect 0, Matched 0 webrtc0, Next 1]"]
  by (simp add: videoSession_def initial_def)


end
